theory Spec2Isabelle
  imports Complex_Main
begin

section \<open>The order service: shopping cart and orders\<close>

text \<open>
  A shallow embedding of the route handlers of
  \<^verbatim>\<open>src/services/order-service/src/server.js\<close>.

  \<^item> A request handler becomes a function from the environment of the request, the
    state of the two stores and the request's parameters to a response and the new state.
  \<^item> The Redis cache maps a key to an entry: the time-to-live given to \<^verbatim>\<open>setEx\<close>
    and the cart that \<^verbatim>\<open>JSON.stringify\<close> wrote and \<^verbatim>\<open>JSON.parse\<close> reads back.
  \<^item> The MongoDB collection maps an object identifier to an order document.
  \<^item> A store call that throws is a flag of the environment; the handler's
    \<^verbatim>\<open>catch\<close> turns it into the response 500. A call that throws leaves its store as
    it was.
  \<^item> Numbers: prices and quantities are real numbers, identifiers are integers, so the
    rounding, NaN and infinities of IEEE doubles are outside the model. Request
    bodies carry a number for \<^verbatim>\<open>price\<close> and \<^verbatim>\<open>quantity\<close> and a string for
    \<^verbatim>\<open>itemName\<close>; every other body field is any primitive JavaScript value.
\<close>

subsection \<open>JavaScript values\<close>

datatype jsval = JUndefined | JNull | JBool bool | JNum int | JStr string

text \<open>Truthiness, as \<^verbatim>\<open>!v\<close> and \<^verbatim>\<open>v || d\<close> test it.\<close>

fun truthy :: "jsval \<Rightarrow> bool" where
  "truthy JUndefined = False"
| "truthy JNull = False"
| "truthy (JBool b) = b"
| "truthy (JNum n) = (n \<noteq> 0)"
| "truthy (JStr s) = (s \<noteq> [])"

definition js_or :: "jsval \<Rightarrow> jsval \<Rightarrow> jsval" where
  "js_or v d = (if truthy v then v else d)"

text \<open>\<^verbatim>\<open>typeof v === 'number'\<close>\<close>

fun isNumber :: "jsval \<Rightarrow> bool" where
  "isNumber (JNum n) = True"
| "isNumber _ = False"

text \<open>Decimal digits of a natural number, most significant first.\<close>

fun showNat :: "nat \<Rightarrow> string" where
  "showNat n =
     (if n < 10 then [''0123456789'' ! n]
      else showNat (n div 10) @ [''0123456789'' ! (n mod 10)])"

declare showNat.simps [simp del]

text \<open>
  The string conversion of a template literal \<^verbatim>\<open>`${v}`\<close> and of the argument
  of \<^verbatim>\<open>parseInt\<close>. An integer is written with its decimal digits, as the language
  does below \<open>10\<^sup>2\<^sup>1\<close>.
\<close>

fun js_toString :: "jsval \<Rightarrow> string" where
  "js_toString JUndefined = ''undefined''"
| "js_toString JNull = ''null''"
| "js_toString (JBool b) = (if b then ''true'' else ''false'')"
| "js_toString (JNum n) = (if n < 0 then CHR ''-'' # showNat (nat (- n)) else showNat (nat n))"
| "js_toString (JStr s) = s"

text \<open>
  \<^verbatim>\<open>parseInt(s)\<close> with no radix: leading white space is skipped, a sign is read, a
  prefix \<^verbatim>\<open>0x\<close> selects radix 16, and the longest run of digits is the value;
  \<open>None\<close> is NaN, the result when there is no digit. White space is the ASCII part
  of the language's white space.
\<close>

definition isWhiteSpace :: "char \<Rightarrow> bool" where
  "isWhiteSpace c = (c \<in> set [CHR '' '', CHR 0x09, CHR 0x0A, CHR 0x0B, CHR 0x0C, CHR 0x0D])"

definition digitValue :: "char \<Rightarrow> nat option" where
  "digitValue c =
     (let k = (of_char c :: nat) in
      if 48 \<le> k \<and> k \<le> 57 then Some (k - 48)
      else if 97 \<le> k \<and> k \<le> 122 then Some (k - 87)
      else if 65 \<le> k \<and> k \<le> 90 then Some (k - 55)
      else None)"

definition isDigitIn :: "nat \<Rightarrow> char \<Rightarrow> bool" where
  "isDigitIn radix c = (case digitValue c of None \<Rightarrow> False | Some d \<Rightarrow> d < radix)"

definition digitsValue :: "nat \<Rightarrow> string \<Rightarrow> nat" where
  "digitsValue radix ds = foldl (\<lambda>acc c. acc * radix + the (digitValue c)) 0 ds"

definition parseInt :: "string \<Rightarrow> int option" where
  "parseInt s =
     (let s1 = dropWhile isWhiteSpace s;
          neg = (s1 \<noteq> [] \<and> hd s1 = CHR ''-'');
          s2 = (if s1 \<noteq> [] \<and> (hd s1 = CHR ''-'' \<or> hd s1 = CHR ''+'') then tl s1 else s1);
          hex = (take 2 s2 = ''0x'' \<or> take 2 s2 = ''0X'');
          radix = (if hex then 16 else 10);
          s3 = (if hex then drop 2 s2 else s2);
          ds = takeWhile (isDigitIn radix) s3
      in if ds = [] then None
         else Some ((if neg then - 1 else 1) * int (digitsValue radix ds)))"

subsection \<open>Data model\<close>

text \<open>
  A cart item is the object literal \<^verbatim>\<open>{itemId, itemName, price, quantity}\<close> that
  the add route pushes; \<^verbatim>\<open>itemId\<close> is the body's value, stored as it came.
  In an order, the field \<^verbatim>\<open>items\<close> is \<open>orderItems\<close> and the field \<^verbatim>\<open>notes\<close>
  is \<open>notes'\<close>; \<open>userId\<close> is the result of \<^verbatim>\<open>parseInt\<close>, and the two dates are
  the clock's value.
\<close>

record cart_item =
  itemId :: jsval
  itemName :: string
  price :: real
  quantity :: real

record cart =
  items :: "cart_item list"
  total :: real

record order =
  userId :: "int option"
  orderItems :: "cart_item list"
  totalAmount :: real
  deliveryAddress :: jsval
  notes' :: jsval
  paymentMethod :: jsval
  status :: string
  createdAt :: nat
  updatedAt :: nat

text \<open>An object identifier is kept as its 24 hexadecimal digits in lower case.\<close>

type_synonym oid = string

record entry =
  ttl :: nat
  payload :: cart

record state =
  redis :: "string \<rightharpoonup> entry"
  orders :: "oid \<rightharpoonup> order"

text \<open>
  What a request meets outside the handler: the clock read by \<^verbatim>\<open>new Date()\<close>, the
  identifier the driver generates for an inserted document, and whether each store
  call returns or throws.
\<close>

record env =
  now :: nat
  newId :: oid
  redisGetOk :: bool
  redisSetOk :: bool
  redisDelOk :: bool
  mongoOk :: bool

text \<open>
  The failures of the handlers. \<open>InvalidInput\<close> and \<open>EmptyCart\<close> are answered
  with 400, \<open>NotFound\<close> with 404 and \<open>StoreFailure\<close>, the \<^verbatim>\<open>catch\<close> branch,
  with 500.
\<close>

datatype error = InvalidInput | EmptyCart | NotFound | StoreFailure

fun httpStatus :: "error \<Rightarrow> nat" where
  "httpStatus InvalidInput = 400"
| "httpStatus EmptyCart = 400"
| "httpStatus NotFound = 404"
| "httpStatus StoreFailure = 500"

subsection \<open>Helpers\<close>

definition getCartKey :: "string \<Rightarrow> string" where
  "getCartKey uid = ''cart:user:'' @ uid"

definition emptyCart :: cart where
  "emptyCart = \<lparr>items = [], total = 0\<rparr>"

text \<open>\<^verbatim>\<open>Array.prototype.findIndex\<close>: the first index that satisfies, \<open>None\<close> for -1.\<close>

fun findIndex :: "('a \<Rightarrow> bool) \<Rightarrow> 'a list \<Rightarrow> nat option" where
  "findIndex P [] = None"
| "findIndex P (x # xs) = (if P x then Some 0 else map_option Suc (findIndex P xs))"

text \<open>\<^verbatim>\<open>xs.splice(i, 1)\<close>: the list without its element at \<open>i\<close>.\<close>

definition splice1 :: "nat \<Rightarrow> 'a list \<Rightarrow> 'a list" where
  "splice1 i xs = take i xs @ drop (Suc i) xs"

text \<open>\<^verbatim>\<open>items.reduce((sum, item) => sum + (item.price * item.quantity), 0)\<close>\<close>

definition calcTotal :: "cart_item list \<Rightarrow> real" where
  "calcTotal xs = foldl (\<lambda>sum item. sum + price item * quantity item) 0 xs"

text \<open>
  Strict equality \<^verbatim>\<open>===\<close> of two values of the body or of a parsed cart: equal
  type and equal value.
\<close>

definition strictEq :: "jsval \<Rightarrow> jsval \<Rightarrow> bool" where
  "strictEq a b = (a = b)"

text \<open>
  Strict equality of a stored value with the result of \<^verbatim>\<open>parseInt\<close>: a number
  equals only the same number, and NaN equals nothing.
\<close>

fun strictEqNum :: "jsval \<Rightarrow> int option \<Rightarrow> bool" where
  "strictEqNum (JNum m) (Some k) = (m = k)"
| "strictEqNum _ _ = False"

text \<open>
  \<^verbatim>\<open>new ObjectId(s)\<close> of the driver for a string: 24 hexadecimal digits give an
  identifier, the same one in either case of the letters; another string throws
  (\<open>None\<close>). Releases of the driver before its fifth also read a string of 12
  characters as 12 bytes; a string of another length, such as \<open>abc\<close>, throws in all
  of them.
\<close>

definition isHexDigit :: "char \<Rightarrow> bool" where
  "isHexDigit c = isDigitIn 16 c"

definition toLower :: "char \<Rightarrow> char" where
  "toLower c =
     (case map_of (zip ''ABCDEFGHIJKLMNOPQRSTUVWXYZ'' ''abcdefghijklmnopqrstuvwxyz'') c of
        None \<Rightarrow> c
      | Some l \<Rightarrow> l)"

definition ObjectId :: "string \<Rightarrow> oid option" where
  "ObjectId s = (if length s = 24 \<and> list_all isHexDigit s then Some (map toLower s) else None)"

definition validStatuses :: "string list" where
  "validStatuses =
     [''pending'', ''confirmed'', ''preparing'', ''out_for_delivery'', ''delivered'', ''cancelled'']"

text \<open>\<^verbatim>\<open>validStatuses.includes(status)\<close>: only a string is equal to a string.\<close>

fun includesStatus :: "jsval \<Rightarrow> bool" where
  "includesStatus (JStr s) = (s \<in> set validStatuses)"
| "includesStatus _ = False"

subsection \<open>Cart routes\<close>

text \<open>\<^verbatim>\<open>GET /api/cart/:userId\<close>\<close>

definition getCart :: "env \<Rightarrow> state \<Rightarrow> string \<Rightarrow> (error + cart) \<times> state" where
  "getCart e st uid =
     (if \<not> redisGetOk e then (Inl StoreFailure, st)
      else case redis st (getCartKey uid) of
             None \<Rightarrow> (Inr emptyCart, st)
           | Some en \<Rightarrow> (Inr (payload en), st))"

text \<open>
  The merge of the add route on the loaded cart: the quantity of the first item with
  the same identifier is increased, or the body's item is pushed; then the total is
  computed again.
\<close>

definition mergeItem :: "cart \<Rightarrow> cart_item \<Rightarrow> cart" where
  "mergeItem c b =
     (let its = (case findIndex (\<lambda>item. strictEq (itemId item) (itemId b)) (items c) of
                   Some i \<Rightarrow> (items c)[i := (items c ! i)\<lparr>quantity := quantity (items c ! i) + quantity b\<rparr>]
                 | None \<Rightarrow> items c @ [b])
      in c\<lparr>items := its, total := calcTotal its\<rparr>)"

text \<open>\<^verbatim>\<open>POST /api/cart/:userId/items\<close>\<close>

definition addItem :: "env \<Rightarrow> state \<Rightarrow> string \<Rightarrow> cart_item \<Rightarrow> (error + cart) \<times> state" where
  "addItem e st uid b =
     (if \<not> redisGetOk e then (Inl StoreFailure, st)
      else
        let c0 = (case redis st (getCartKey uid) of None \<Rightarrow> emptyCart | Some en \<Rightarrow> payload en);
            c = mergeItem c0 b
        in if \<not> redisSetOk e then (Inl StoreFailure, st)
           else (Inr c, st\<lparr>redis := (redis st)(getCartKey uid \<mapsto> \<lparr>ttl = 86400, payload = c\<rparr>)\<rparr>))"

text \<open>
  The change of the update route at the index found: a quantity at most 0 removes the
  item, another one replaces the item's quantity; then the total is computed again.
\<close>

definition setQuantity :: "cart \<Rightarrow> nat \<Rightarrow> real \<Rightarrow> cart" where
  "setQuantity c i q =
     (let its = (if q \<le> 0 then splice1 i (items c)
                 else (items c)[i := (items c ! i)\<lparr>quantity := q\<rparr>])
      in c\<lparr>items := its, total := calcTotal its\<rparr>)"

text \<open>\<^verbatim>\<open>PUT /api/cart/:userId/items/:itemId\<close>\<close>

definition updateItemQuantity ::
  "env \<Rightarrow> state \<Rightarrow> string \<Rightarrow> string \<Rightarrow> real \<Rightarrow> (error + cart) \<times> state" where
  "updateItemQuantity e st uid itemIdParam q =
     (let iid = parseInt itemIdParam in
      if \<not> redisGetOk e then (Inl StoreFailure, st)
      else case redis st (getCartKey uid) of
             None \<Rightarrow> (Inl NotFound, st)
           | Some en \<Rightarrow>
               (case findIndex (\<lambda>item. strictEqNum (itemId item) iid) (items (payload en)) of
                  None \<Rightarrow> (Inl NotFound, st)
                | Some i \<Rightarrow>
                    let c = setQuantity (payload en) i q
                    in if \<not> redisSetOk e then (Inl StoreFailure, st)
                       else (Inr c,
                             st\<lparr>redis := (redis st)(getCartKey uid \<mapsto> \<lparr>ttl = 86400, payload = c\<rparr>)\<rparr>)))"

text \<open>\<^verbatim>\<open>DELETE /api/cart/:userId\<close>\<close>

definition clearCart :: "env \<Rightarrow> state \<Rightarrow> string \<Rightarrow> (error + cart) \<times> state" where
  "clearCart e st uid =
     (if \<not> redisDelOk e then (Inl StoreFailure, st)
      else (Inr emptyCart, st\<lparr>redis := (redis st)(getCartKey uid := None)\<rparr>))"

subsection \<open>Order routes\<close>

text \<open>
  \<^verbatim>\<open>insertOne\<close>: the document is stored under the generated identifier; the call
  throws when the store is unreachable or the identifier is already a key.
\<close>

definition insertOne :: "env \<Rightarrow> state \<Rightarrow> order \<Rightarrow> (oid \<times> state) option" where
  "insertOne e st ord =
     (if \<not> mongoOk e \<or> newId e \<in> dom (orders st) then None
      else Some (newId e, st\<lparr>orders := (orders st)(newId e \<mapsto> ord)\<rparr>))"

text \<open>
  The order document that the place-order route builds from the body and the cart
  \<open>c\<close>: \<^verbatim>\<open>{userId: parseInt(userId), items: cart.items, totalAmount: cart.total, ...}\<close>.
\<close>

definition snapshot :: "env \<Rightarrow> jsval \<Rightarrow> jsval \<Rightarrow> jsval \<Rightarrow> jsval \<Rightarrow> cart \<Rightarrow> order" where
  "snapshot e uid addr nts pay c =
     \<lparr>userId = parseInt (js_toString uid), orderItems = items c, totalAmount = total c,
      deliveryAddress = addr, notes' = js_or nts (JStr ''''), paymentMethod = js_or pay (JStr ''cash''),
      status = ''pending'', createdAt = now e, updatedAt = now e\<rparr>"

text \<open>\<^verbatim>\<open>POST /api/orders\<close>; the response of a success is the identifier and the order.\<close>

definition placeOrder ::
  "env \<Rightarrow> state \<Rightarrow> jsval \<Rightarrow> jsval \<Rightarrow> jsval \<Rightarrow> jsval \<Rightarrow> (error + oid \<times> order) \<times> state" where
  "placeOrder e st uid addr nts pay =
     (if \<not> truthy uid \<or> \<not> truthy addr then (Inl InvalidInput, st)
      else
        let cartKey = getCartKey (js_toString uid) in
        if \<not> redisGetOk e then (Inl StoreFailure, st)
        else case redis st cartKey of
               None \<Rightarrow> (Inl EmptyCart, st)
             | Some en \<Rightarrow>
                 if length (items (payload en)) = 0 then (Inl EmptyCart, st)
                 else
                   let ord = snapshot e uid addr nts pay (payload en)
                   in (case insertOne e st ord of
                         None \<Rightarrow> (Inl StoreFailure, st)
                       | Some (i, st1) \<Rightarrow>
                           if \<not> redisDelOk e then (Inl StoreFailure, st1)
                           else (Inr (i, ord), st1\<lparr>redis := (redis st1)(cartKey := None)\<rparr>)))"

text \<open>\<^verbatim>\<open>GET /api/orders/:orderId\<close>\<close>

definition getOrder :: "env \<Rightarrow> state \<Rightarrow> string \<Rightarrow> (error + order) \<times> state" where
  "getOrder e st orderIdParam =
     (case ObjectId orderIdParam of
        None \<Rightarrow> (Inl StoreFailure, st)
      | Some i \<Rightarrow>
          if \<not> mongoOk e then (Inl StoreFailure, st)
          else (case orders st i of
                  None \<Rightarrow> (Inl NotFound, st)
                | Some ord \<Rightarrow> (Inr ord, st)))"

text \<open>\<^verbatim>\<open>PUT /api/orders/:orderId/status\<close>; the response of a success is the status.\<close>

definition updateOrderStatus ::
  "env \<Rightarrow> state \<Rightarrow> string \<Rightarrow> jsval \<Rightarrow> (error + jsval) \<times> state" where
  "updateOrderStatus e st orderIdParam st_new =
     (if \<not> includesStatus st_new then (Inl InvalidInput, st)
      else case ObjectId orderIdParam of
             None \<Rightarrow> (Inl StoreFailure, st)
           | Some i \<Rightarrow>
               if \<not> mongoOk e then (Inl StoreFailure, st)
               else (case orders st i of
                       None \<Rightarrow> (Inl NotFound, st)
                     | Some ord \<Rightarrow>
                         (Inr st_new,
                          st\<lparr>orders := (orders st)(i \<mapsto> ord\<lparr>status := js_toString st_new,
                                                               updatedAt := now e\<rparr>)\<rparr>)))"

subsection \<open>Reading and writing a cart, and example data\<close>

text \<open>The cart a handler works on, and the write of \<^verbatim>\<open>setEx(cartKey, 86400, ...)\<close>.\<close>

definition loadCart :: "state \<Rightarrow> string \<Rightarrow> cart" where
  "loadCart st uid = (case redis st (getCartKey uid) of None \<Rightarrow> emptyCart | Some en \<Rightarrow> payload en)"

definition saveCart :: "state \<Rightarrow> string \<Rightarrow> cart \<Rightarrow> state" where
  "saveCart st uid c = st\<lparr>redis := (redis st)(getCartKey uid \<mapsto> \<lparr>ttl = 86400, payload = c\<rparr>)\<rparr>"

text \<open>An environment in which every store call returns, empty stores, and an item.\<close>

definition envUp :: env where
  "envUp = \<lparr>now = 1700000000, newId = ''507f1f77bcf86cd799439011'',
             redisGetOk = True, redisSetOk = True, redisDelOk = True, mongoOk = True\<rparr>"

definition noData :: state where
  "noData = \<lparr>redis = Map.empty, orders = Map.empty\<rparr>"

definition pizza :: "real \<Rightarrow> cart_item" where
  "pizza q = \<lparr>itemId = JNum 1, itemName = ''Pizza'', price = 10, quantity = q\<rparr>"

text \<open>
  A state in which user 5 has a cart of three pizzas, the order that a checkout of it
  creates, and the state after that checkout.
\<close>

definition pizzaCart :: state where
  "pizzaCart = saveCart noData ''5'' \<lparr>items = [pizza 3], total = 30\<rparr>"

definition pizzaOrder :: order where
  "pizzaOrder = \<lparr>userId = Some 5, orderItems = [pizza 3], totalAmount = 30,
      deliveryAddress = JStr ''123 Main St'', notes' = JStr '''', paymentMethod = JStr ''cash'',
      status = ''pending'', createdAt = 1700000000, updatedAt = 1700000000\<rparr>"

definition ordered :: state where
  "ordered = pizzaCart\<lparr>orders := (orders pizzaCart)(''507f1f77bcf86cd799439011'' \<mapsto> pizzaOrder),
                        redis := (redis pizzaCart)(''cart:user:5'' := None)\<rparr>"

section \<open>Properties\<close>

subsection \<open>The helpers\<close>

lemma findIndex_None_iff: "findIndex P xs = None \<longleftrightarrow> (\<forall>x\<in>set xs. \<not> P x)"
  by (induction xs) auto

lemma findIndex_Some_iff:
  "findIndex P xs = Some i \<longleftrightarrow> i < length xs \<and> P (xs ! i) \<and> (\<forall>j<i. \<not> P (xs ! j))"
proof (induction xs arbitrary: i)
  case Nil
  then show ?case by simp
next
  case (Cons x xs)
  show ?case
  proof (cases "P x")
    case True
    then show ?thesis by (cases i) auto
  next
    case False
    show ?thesis
    proof (cases i)
      case 0
      with False show ?thesis by simp
    next
      case (Suc k)
      have "(\<forall>j<Suc k. \<not> P ((x # xs) ! j)) \<longleftrightarrow> (\<forall>j<k. \<not> P (xs ! j))"
        using False by (auto simp: less_Suc_eq_0_disj)
      with False Suc Cons.IH [of k] show ?thesis by auto
    qed
  qed
qed

text \<open>The \<^verbatim>\<open>reduce\<close> of the total is the sum of the products.\<close>

lemma calcTotal_sum: "calcTotal xs = (\<Sum>i\<leftarrow>xs. price i * quantity i)"
proof -
  have "foldl (\<lambda>s i. s + price i * quantity i) a xs = a + (\<Sum>i\<leftarrow>xs. price i * quantity i)" for a
    by (induction xs arbitrary: a) simp_all
  then show ?thesis by (simp add: calcTotal_def)
qed

lemma mergeItem_total:
  "total (mergeItem c b) = (\<Sum>i\<leftarrow>items (mergeItem c b). price i * quantity i)"
  by (simp add: mergeItem_def Let_def calcTotal_sum)

lemma setQuantity_total:
  "total (setQuantity c i q) = (\<Sum>i\<leftarrow>items (setQuantity c i q). price i * quantity i)"
  by (simp add: setQuantity_def Let_def calcTotal_sum)

subsection \<open>The outcomes of the cart routes\<close>

lemma addItem_outcome:
  "addItem e st uid b =
     (if redisGetOk e \<and> redisSetOk e
      then (Inr (mergeItem (loadCart st uid) b), saveCart st uid (mergeItem (loadCart st uid) b))
      else (Inl StoreFailure, st))"
  by (simp add: addItem_def loadCart_def saveCart_def Let_def)

lemma updateItemQuantity_outcome:
  "updateItemQuantity e st uid p q =
     (if \<not> redisGetOk e then (Inl StoreFailure, st)
      else case redis st (getCartKey uid) of
        None \<Rightarrow> (Inl NotFound, st)
      | Some en \<Rightarrow>
          (case findIndex (\<lambda>item. strictEqNum (itemId item) (parseInt p)) (items (payload en)) of
             None \<Rightarrow> (Inl NotFound, st)
           | Some i \<Rightarrow>
               if redisSetOk e
               then (Inr (setQuantity (payload en) i q), saveCart st uid (setQuantity (payload en) i q))
               else (Inl StoreFailure, st)))"
  by (simp add: updateItemQuantity_def saveCart_def Let_def split: option.splits)

lemma mergeItem_present:
  assumes "i < length (items c)" and "itemId (items c ! i) = itemId b"
    and "\<forall>j<i. itemId (items c ! j) \<noteq> itemId b"
  shows "items (mergeItem c b) =
           (items c)[i := (items c ! i)\<lparr>quantity := quantity (items c ! i) + quantity b\<rparr>]"
proof -
  have "findIndex (\<lambda>item. strictEq (itemId item) (itemId b)) (items c) = Some i"
    using assms by (simp add: findIndex_Some_iff strictEq_def)
  then show ?thesis by (simp add: mergeItem_def Let_def)
qed

lemma mergeItem_absent:
  assumes "\<forall>x\<in>set (items c). itemId x \<noteq> itemId b"
  shows "items (mergeItem c b) = items c @ [b]"
proof -
  have "findIndex (\<lambda>item. strictEq (itemId item) (itemId b)) (items c) = None"
    using assms by (simp add: findIndex_None_iff strictEq_def)
  then show ?thesis by (simp add: mergeItem_def Let_def)
qed

lemma loadCart_saveCart: "loadCart (saveCart st uid c) uid = c"
  by (simp add: loadCart_def saveCart_def)

lemma strictEqNum_iff: "strictEqNum v k \<longleftrightarrow> (\<exists>n. k = Some n \<and> v = JNum n)"
  by (cases v; cases k) auto

lemma strictEqNum_isNumber: "strictEqNum v k \<Longrightarrow> isNumber v"
  by (cases v; cases k) auto

lemma setQuantity_items:
  "items (setQuantity c i q) =
     (if q \<le> 0 then take i (items c) @ drop (Suc i) (items c)
      else (items c)[i := (items c ! i)\<lparr>quantity := q\<rparr>])"
  by (simp add: setQuantity_def splice1_def Let_def)

lemma mergeItem_ids:
  "map itemId (items (mergeItem c b)) =
     (if itemId b \<in> itemId ` set (items c) then map itemId (items c)
      else map itemId (items c) @ [itemId b])"
proof (cases "findIndex (\<lambda>item. strictEq (itemId item) (itemId b)) (items c)")
  case None
  then have "\<forall>x\<in>set (items c). itemId x \<noteq> itemId b"
    by (simp add: findIndex_None_iff strictEq_def)
  then show ?thesis using mergeItem_absent [of c b] by auto
next
  case (Some i)
  then have i: "i < length (items c)" "itemId (items c ! i) = itemId b"
    by (simp_all add: findIndex_Some_iff strictEq_def)
  then have "itemId b \<in> itemId ` set (items c)"
    by (metis imageI nth_mem)
  moreover have "map itemId (items (mergeItem c b)) = map itemId (items c)"
    using Some i by (simp add: mergeItem_def Let_def map_update list_update_same_conv)
  ultimately show ?thesis by simp
qed

lemma filter_splice:
  assumes "i < length xs" and "\<not> P (xs ! i)"
  shows "filter P (take i xs @ drop (Suc i) xs) = filter P xs"
proof -
  have "xs = take i xs @ xs ! i # drop (Suc i) xs"
    using assms(1) by (rule id_take_nth_drop)
  then have "filter P xs = filter P (take i xs @ xs ! i # drop (Suc i) xs)"
    by simp
  also have "\<dots> = filter P (take i xs @ drop (Suc i) xs)"
    using assms(2) by simp
  finally show ?thesis by simp
qed

lemma filter_update:
  assumes "i < length xs" and "\<not> P (xs ! i)" and "\<not> P y"
  shows "filter P (xs[i := y]) = filter P xs"
proof -
  have "filter P (xs[i := y]) = filter P (take i xs @ y # drop (Suc i) xs)"
    using assms(1) by (simp add: upd_conv_take_nth_drop)
  also have "\<dots> = filter P (take i xs @ drop (Suc i) xs)"
    using assms(3) by simp
  also have "\<dots> = filter P xs"
    using assms(1,2) by (rule filter_splice)
  finally show ?thesis .
qed

lemma setQuantity_keeps_others:
  assumes "i < length (items c)" and "isNumber (itemId (items c ! i))"
  shows "filter (\<lambda>x. \<not> isNumber (itemId x)) (items (setQuantity c i q)) =
         filter (\<lambda>x. \<not> isNumber (itemId x)) (items c)"
proof (cases "q \<le> 0")
  case True
  have "filter (\<lambda>x. \<not> isNumber (itemId x)) (take i (items c) @ drop (Suc i) (items c)) =
        filter (\<lambda>x. \<not> isNumber (itemId x)) (items c)"
    using assms by (intro filter_splice) simp_all
  with True show ?thesis by (simp only: setQuantity_items if_True)
next
  case False
  have "filter (\<lambda>x. \<not> isNumber (itemId x)) ((items c)[i := (items c ! i)\<lparr>quantity := q\<rparr>]) =
        filter (\<lambda>x. \<not> isNumber (itemId x)) (items c)"
    using assms by (intro filter_update) simp_all
  with False show ?thesis by (simp only: setQuantity_items if_False)
qed

subsection \<open>The outcome of placing an order\<close>

lemma placeOrder_outcome:
  "placeOrder e st uid addr nts pay =
     (if \<not> truthy uid \<or> \<not> truthy addr then (Inl InvalidInput, st)
      else if \<not> redisGetOk e then (Inl StoreFailure, st)
      else case redis st (getCartKey (js_toString uid)) of
        None \<Rightarrow> (Inl EmptyCart, st)
      | Some en \<Rightarrow>
          if items (payload en) = [] then (Inl EmptyCart, st)
          else if \<not> mongoOk e \<or> newId e \<in> dom (orders st) then (Inl StoreFailure, st)
          else if \<not> redisDelOk e
          then (Inl StoreFailure,
                st\<lparr>orders := (orders st)(newId e \<mapsto> snapshot e uid addr nts pay (payload en))\<rparr>)
          else (Inr (newId e, snapshot e uid addr nts pay (payload en)),
                st\<lparr>orders := (orders st)(newId e \<mapsto> snapshot e uid addr nts pay (payload en)),
                   redis := (redis st)(getCartKey (js_toString uid) := None)\<rparr>))"
  by (simp add: placeOrder_def insertOne_def Let_def split: option.splits)

lemmas example_defs =
  envUp_def noData_def pizza_def emptyCart_def getCartKey_def strictEq_def calcTotal_def
  mergeItem_def setQuantity_def splice1_def loadCart_def saveCart_def Let_def

subsection \<open>The total of a cart\<close>

text \<open>The routes that read, clear and check out a cart write no cart.\<close>

lemma other_routes_write_no_cart:
  "redis (snd (getCart e st uid)) k = Some en \<or>
   redis (snd (clearCart e st uid)) k = Some en \<or>
   redis (snd (placeOrder e st u addr nts pay)) k = Some en \<Longrightarrow> redis st k = Some en"
  by (auto simp: getCart_def clearCart_def placeOrder_outcome split: option.splits if_splits)

text \<open>
  C1. Let \<open>h\<close> be the outcome of the add route or of the update route on any state.
  A cart that the route returns has a total equal to the sum of price times quantity
  over its items, and it is the cart written under the user's key. Every entry of the
  cache after the request is an entry that was there before the request or holds a cart
  whose total is that sum: neither route writes a total that is not computed from the
  items it writes. The other routes write no cart: an entry of the cache after one of
  them was there before.
\<close>

theorem cart_total_is_sum:
  assumes "h = addItem e st uid b \<or> h = updateItemQuantity e st uid p q"
  shows "(\<forall>c. fst h = Inr c \<longrightarrow>
            total c = (\<Sum>i\<leftarrow>items c. price i * quantity i) \<and>
            redis (snd h) (getCartKey uid) = Some \<lparr>ttl = 86400, payload = c\<rparr>) \<and>
         (\<forall>k en. redis (snd h) k = Some en \<longrightarrow>
            redis st k = Some en \<or>
            total (payload en) = (\<Sum>i\<leftarrow>items (payload en). price i * quantity i)) \<and>
         (\<forall>k en e' u v addr nts pay.
            redis (snd (getCart e' st u)) k = Some en \<or>
            redis (snd (clearCart e' st u)) k = Some en \<or>
            redis (snd (placeOrder e' st v addr nts pay)) k = Some en \<longrightarrow>
            redis st k = Some en)"
proof -
  have "\<forall>c. fst h = Inr c \<longrightarrow>
            total c = (\<Sum>i\<leftarrow>items c. price i * quantity i) \<and>
            redis (snd h) (getCartKey uid) = Some \<lparr>ttl = 86400, payload = c\<rparr>"
    using assms
    by (auto simp: addItem_outcome updateItemQuantity_outcome saveCart_def mergeItem_total
        setQuantity_total split: option.splits if_splits)
  moreover have "\<forall>k en. redis (snd h) k = Some en \<longrightarrow>
            redis st k = Some en \<or>
            total (payload en) = (\<Sum>i\<leftarrow>items (payload en). price i * quantity i)"
    using assms
    by (auto simp: addItem_outcome updateItemQuantity_outcome saveCart_def mergeItem_total
        setQuantity_total split: option.splits if_splits)
  ultimately show ?thesis
    using other_routes_write_no_cart by blast
qed

theorem cart_total_is_sum_witness:
  "fst (addItem envUp noData ''5'' (pizza 2)) = Inr \<lparr>items = [pizza 2], total = 20\<rparr> \<and>
   redis (snd (addItem envUp noData ''5'' (pizza 2))) (getCartKey ''5'') =
     Some \<lparr>ttl = 86400, payload = \<lparr>items = [pizza 2], total = 20\<rparr>\<rparr> \<and>
   total \<lparr>items = [pizza 2], total = 20\<rparr> = (\<Sum>i\<leftarrow>[pizza 2]. price i * quantity i)"
  using cart_total_is_sum [of "addItem envUp noData ''5'' (pizza 2)" envUp noData "''5''" "pizza 2"]
  by (simp add: addItem_def example_defs)

subsection \<open>Adding an item\<close>

text \<open>
  C3. When both cache calls of the add route return, the route answers with a cart
  \<open>c\<close> and writes it under the user's key. Its total is the sum of price times
  quantity over its items. If the loaded cart has an item with the body's identifier,
  the first such item has its quantity increased by the body's quantity and nothing
  else changes; otherwise the body's item is appended, whatever its quantity, also
  when it is zero or negative. Adding an item with a new identifier and then an item
  with the same identifier leaves one item for it, with the sum of the two quantities.
\<close>

theorem addItem_merges:
  assumes "redisGetOk e" and "redisSetOk e" and "its = items (loadCart st uid)"
  shows "\<exists>c. addItem e st uid b = (Inr c, saveCart st uid c) \<and>
           total c = (\<Sum>x\<leftarrow>items c. price x * quantity x) \<and>
           (\<forall>i. i < length its \<and> itemId (its ! i) = itemId b \<and>
                (\<forall>j<i. itemId (its ! j) \<noteq> itemId b) \<longrightarrow>
                items c = its[i := (its ! i)\<lparr>quantity := quantity (its ! i) + quantity b\<rparr>]) \<and>
           ((\<forall>x\<in>set its. itemId x \<noteq> itemId b) \<longrightarrow>
                items c = its @ [b] \<and>
                (\<forall>b'. itemId b' = itemId b \<longrightarrow>
                   (\<exists>c'. addItem e (saveCart st uid c) uid b' = (Inr c', saveCart (saveCart st uid c) uid c') \<and>
                      items c' = its @ [b\<lparr>quantity := quantity b + quantity b'\<rparr>])))"
proof -
  let ?old = "loadCart st uid"
  let ?new = "mergeItem ?old b"
  have run: "addItem e st uid b = (Inr ?new, saveCart st uid ?new)"
    using assms by (simp add: addItem_outcome)
  have tot: "total ?new = (\<Sum>x\<leftarrow>items ?new. price x * quantity x)"
    by (rule mergeItem_total)
  have pres: "items ?new = its[i := (its ! i)\<lparr>quantity := quantity (its ! i) + quantity b\<rparr>]"
    if "i < length its \<and> itemId (its ! i) = itemId b \<and> (\<forall>j<i. itemId (its ! j) \<noteq> itemId b)" for i
    using that assms(3) mergeItem_present [where c = ?old and b = b and i = i] by simp
  have abs: "items ?new = its @ [b]" if "\<forall>x\<in>set its. itemId x \<noteq> itemId b"
    using that assms(3) mergeItem_absent [where c = ?old and b = b] by simp
  have again: "\<exists>c'. addItem e (saveCart st uid ?new) uid b' = (Inr c', saveCart (saveCart st uid ?new) uid c') \<and>
                 items c' = its @ [b\<lparr>quantity := quantity b + quantity b'\<rparr>]"
    if fresh: "\<forall>x\<in>set its. itemId x \<noteq> itemId b" and same: "itemId b' = itemId b" for b'
  proof -
    let ?i = "length its"
    have its1: "items ?new = its @ [b]" using fresh by (rule abs)
    have "items (mergeItem ?new b') =
            (items ?new)[?i := (items ?new ! ?i)\<lparr>quantity := quantity (items ?new ! ?i) + quantity b'\<rparr>]"
    proof (rule mergeItem_present)
      show "?i < length (items ?new)" by (simp add: its1)
      show "itemId (items ?new ! ?i) = itemId b'" by (simp add: its1 same)
      show "\<forall>j<?i. itemId (items ?new ! j) \<noteq> itemId b'"
        using fresh by (simp add: its1 same nth_append)
    qed
    then have "items (mergeItem ?new b') = its @ [b\<lparr>quantity := quantity b + quantity b'\<rparr>]"
      by (simp add: its1)
    moreover have "addItem e (saveCart st uid ?new) uid b' =
        (Inr (mergeItem ?new b'), saveCart (saveCart st uid ?new) uid (mergeItem ?new b'))"
      using assms by (simp add: addItem_outcome loadCart_saveCart)
    ultimately show ?thesis by blast
  qed
  show ?thesis
    using run tot pres abs again by blast
qed

theorem addItem_merges_witness:
  "addItem envUp noData ''5'' (pizza (- 2)) =
     (Inr \<lparr>items = [pizza (- 2)], total = - 20\<rparr>,
      saveCart noData ''5'' \<lparr>items = [pizza (- 2)], total = - 20\<rparr>) \<and>
   fst (addItem envUp (snd (addItem envUp noData ''5'' (pizza 2))) ''5'' (pizza 3)) =
     Inr \<lparr>items = [pizza 5], total = 50\<rparr>"
  using addItem_merges [of envUp "items (loadCart noData ''5'')" noData "''5''" "pizza (- 2)"]
  by (simp add: addItem_def example_defs)


subsection \<open>Updating a quantity\<close>

text \<open>
  C6. When both cache calls of the update route return, the user has a cart and \<open>i\<close>
  is the first index whose item has the number that the path parameter parses to as
  its identifier, the route answers with a cart \<open>c\<close> and writes it under the user's
  key: for a quantity of at most 0 the item at \<open>i\<close> is removed, for a positive
  quantity the item at \<open>i\<close> has its quantity replaced by it, and the total of \<open>c\<close>
  is the sum of price times quantity over the items of \<open>c\<close>.
\<close>

theorem updateItemQuantity_sets_or_removes:
  assumes "redisGetOk e" and "redisSetOk e"
    and "redis st (getCartKey uid) = Some en" and "its = items (payload en)"
    and "parseInt p = Some n"
    and "i < length its" and "itemId (its ! i) = JNum n" and "\<forall>j<i. itemId (its ! j) \<noteq> JNum n"
  shows "\<exists>c. updateItemQuantity e st uid p q = (Inr c, saveCart st uid c) \<and>
           (q \<le> 0 \<longrightarrow> items c = take i its @ drop (Suc i) its \<and> length (items c) = length its - 1) \<and>
           (0 < q \<longrightarrow> items c = its[i := (its ! i)\<lparr>quantity := q\<rparr>]) \<and>
           total c = (\<Sum>x\<leftarrow>items c. price x * quantity x)"
proof -
  have "findIndex (\<lambda>item. strictEqNum (itemId item) (parseInt p)) (items (payload en)) = Some i"
    using assms(4-8) by (simp add: findIndex_Some_iff strictEqNum_iff)
  then have "updateItemQuantity e st uid p q =
      (Inr (setQuantity (payload en) i q), saveCart st uid (setQuantity (payload en) i q))"
    using assms(1-3) by (simp add: updateItemQuantity_outcome)
  moreover have "q \<le> 0 \<longrightarrow> items (setQuantity (payload en) i q) = take i its @ drop (Suc i) its \<and>
      length (items (setQuantity (payload en) i q)) = length its - 1"
    using assms(4,6) by (auto simp: setQuantity_items)
  moreover have "0 < q \<longrightarrow> items (setQuantity (payload en) i q) = its[i := (its ! i)\<lparr>quantity := q\<rparr>]"
    using assms(4) by (simp add: setQuantity_items)
  ultimately show ?thesis
    using setQuantity_total [of "payload en" i q] by blast
qed

theorem updateItemQuantity_sets_or_removes_witness:
  "updateItemQuantity envUp (saveCart noData ''5'' \<lparr>items = [pizza 2], total = 20\<rparr>) ''5'' ''1'' 0 =
     (Inr \<lparr>items = [], total = 0\<rparr>,
      saveCart (saveCart noData ''5'' \<lparr>items = [pizza 2], total = 20\<rparr>) ''5'' \<lparr>items = [], total = 0\<rparr>) \<and>
   fst (updateItemQuantity envUp (saveCart noData ''5'' \<lparr>items = [pizza 2], total = 20\<rparr>) ''5'' ''1'' 7) =
     Inr \<lparr>items = [pizza 7], total = 70\<rparr>"
proof -
  have p: "parseInt ''1'' = Some 1"
    by (simp add: parseInt_def isWhiteSpace_def isDigitIn_def digitValue_def digitsValue_def)
  have "\<exists>c. updateItemQuantity envUp (saveCart noData ''5'' \<lparr>items = [pizza 2], total = 20\<rparr>) ''5'' ''1'' 0 =
          (Inr c, saveCart (saveCart noData ''5'' \<lparr>items = [pizza 2], total = 20\<rparr>) ''5'' c) \<and>
          (0 \<le> (0::real) \<longrightarrow> items c = take 0 [pizza 2] @ drop (Suc 0) [pizza 2] \<and> length (items c) = length [pizza 2] - 1) \<and>
          ((0::real) < 0 \<longrightarrow> items c = [pizza 2][0 := ([pizza 2] ! 0)\<lparr>quantity := 0\<rparr>]) \<and>
          total c = (\<Sum>x\<leftarrow>items c. price x * quantity x)"
    using updateItemQuantity_sets_or_removes [of envUp
        "saveCart noData ''5'' \<lparr>items = [pizza 2], total = 20\<rparr>" "''5''"
        "\<lparr>ttl = 86400, payload = \<lparr>items = [pizza 2], total = 20\<rparr>\<rparr>" "[pizza 2]" "''1''" 1 0 0] p
    by (simp add: example_defs)
  then have first: "updateItemQuantity envUp (saveCart noData ''5'' \<lparr>items = [pizza 2], total = 20\<rparr>) ''5'' ''1'' 0 =
     (Inr \<lparr>items = [], total = 0\<rparr>,
      saveCart (saveCart noData ''5'' \<lparr>items = [pizza 2], total = 20\<rparr>) ''5'' \<lparr>items = [], total = 0\<rparr>)"
    by (simp add: updateItemQuantity_def p example_defs)
  moreover have "fst (updateItemQuantity envUp (saveCart noData ''5'' \<lparr>items = [pizza 2], total = 20\<rparr>) ''5'' ''1'' 7) =
     Inr \<lparr>items = [pizza 7], total = 70\<rparr>"
    by (simp add: updateItemQuantity_def p example_defs)
  ultimately show ?thesis by blast
qed


text \<open>
  C7. When the cache read returns, the update route answers NotFound (404) exactly
  when the user has no cart or no item of the cart has the number that the path
  parameter parses to as its identifier. Whenever it answers NotFound, the stores are
  as before.
\<close>

theorem updateItemQuantity_NotFound_iff:
  assumes "redisGetOk e"
  shows "(fst (updateItemQuantity e st uid p q) = Inl NotFound \<longleftrightarrow>
            redis st (getCartKey uid) = None \<or>
            (\<exists>en. redis st (getCartKey uid) = Some en \<and>
               \<not> (\<exists>x\<in>set (items (payload en)). \<exists>n. parseInt p = Some n \<and> itemId x = JNum n))) \<and>
         (fst (updateItemQuantity e st uid p q) = Inl NotFound \<longrightarrow>
            snd (updateItemQuantity e st uid p q) = st) \<and>
         httpStatus NotFound = 404"
proof -
  let ?P = "\<lambda>item. strictEqNum (itemId item) (parseInt p)"
  have none: "findIndex ?P xs = None \<longleftrightarrow> \<not> (\<exists>x\<in>set xs. \<exists>n. parseInt p = Some n \<and> itemId x = JNum n)" for xs
    by (simp add: findIndex_None_iff strictEqNum_iff)
  show ?thesis
  proof (cases "redis st (getCartKey uid)")
    case None
    then show ?thesis using assms by (simp add: updateItemQuantity_outcome)
  next
    case (Some en)
    show ?thesis
    proof (cases "findIndex ?P (items (payload en))")
      case None
      with Some assms none [of "items (payload en)"] show ?thesis
        by (simp add: updateItemQuantity_outcome)
    next
      case (Some i)
      with \<open>redis st (getCartKey uid) = Some en\<close> assms none [of "items (payload en)"] show ?thesis
        by (simp add: updateItemQuantity_outcome)
    qed
  qed
qed

theorem updateItemQuantity_NotFound_iff_witness:
  "fst (updateItemQuantity envUp noData ''5'' ''1'' 3) = Inl NotFound \<and>
   snd (updateItemQuantity envUp noData ''5'' ''1'' 3) = noData \<and>
   updateItemQuantity envUp (saveCart noData ''5'' \<lparr>items = [pizza 2], total = 20\<rparr>) ''5'' ''2'' 3 =
     (Inl NotFound, saveCart noData ''5'' \<lparr>items = [pizza 2], total = 20\<rparr>)"
proof -
  have p: "parseInt ''2'' = Some 2"
    by (simp add: parseInt_def isWhiteSpace_def isDigitIn_def digitValue_def digitsValue_def)
  have "redisGetOk envUp" by (simp add: envUp_def)
  from updateItemQuantity_NotFound_iff [OF this, of noData "''5''" "''1''" 3]
  have "fst (updateItemQuantity envUp noData ''5'' ''1'' 3) = Inl NotFound \<and>
        snd (updateItemQuantity envUp noData ''5'' ''1'' 3) = noData"
    by (simp add: noData_def)
  moreover have "updateItemQuantity envUp (saveCart noData ''5'' \<lparr>items = [pizza 2], total = 20\<rparr>) ''5'' ''2'' 3 =
     (Inl NotFound, saveCart noData ''5'' \<lparr>items = [pizza 2], total = 20\<rparr>)"
    by (simp add: updateItemQuantity_def p example_defs)
  ultimately show ?thesis by blast
qed

text \<open>
  C10, as amended. Let the add route store an item whose identifier is not a number,
  such as the string \<open>''1''\<close>. The item is in the stored cart. A later call of the
  update route for that user is answered NotFound unless an item of the cart before the
  add has the number that the path parameter parses to as its identifier; and a call
  that succeeds leaves the items whose identifier is not a number as they were. So no
  call of the update route changes or removes the item.
\<close>

theorem non_number_itemId_unreachable:
  assumes "\<not> isNumber (itemId b)" and "redisGetOk e" and "redisSetOk e"
    and "addItem e st uid b = (r, st1)"
  shows "(\<exists>c1. r = Inr c1 \<and> redis st1 (getCartKey uid) = Some \<lparr>ttl = 86400, payload = c1\<rparr> \<and>
            itemId b \<in> itemId ` set (items c1)) \<and>
         (\<forall>e' p q. redisGetOk e' \<and>
              \<not> (\<exists>x\<in>set (items (loadCart st uid)). \<exists>n. parseInt p = Some n \<and> itemId x = JNum n) \<longrightarrow>
              updateItemQuantity e' st1 uid p q = (Inl NotFound, st1)) \<and>
         (\<forall>e' p q c2 st2. updateItemQuantity e' st1 uid p q = (Inr c2, st2) \<longrightarrow>
              filter (\<lambda>x. \<not> isNumber (itemId x)) (items c2) =
              filter (\<lambda>x. \<not> isNumber (itemId x)) (items (loadCart st1 uid)))"
proof -
  let ?old = "loadCart st uid"
  let ?new = "mergeItem ?old b"
  have r: "r = Inr ?new" and st1: "st1 = saveCart st uid ?new"
    using assms(2-4) by (simp_all add: addItem_outcome)
  have stored: "redis st1 (getCartKey uid) = Some \<lparr>ttl = 86400, payload = ?new\<rparr>"
    by (simp add: st1 saveCart_def)
  have ids: "set (map itemId (items ?new)) = insert (itemId b) (itemId ` set (items ?old))"
    by (auto simp: mergeItem_ids)
  then have present: "itemId b \<in> itemId ` set (items ?new)"
    by simp
  have miss: "updateItemQuantity e' st1 uid p q = (Inl NotFound, st1)"
    if ok: "redisGetOk e'"
      and no: "\<not> (\<exists>x\<in>set (items ?old). \<exists>n. parseInt p = Some n \<and> itemId x = JNum n)"
    for e' p q
  proof -
    have "\<not> strictEqNum v (parseInt p)" if "v \<in> set (map itemId (items ?new))" for v
    proof
      assume m: "strictEqNum v (parseInt p)"
      then have "isNumber v" by (rule strictEqNum_isNumber)
      with that ids assms(1) have "v \<in> itemId ` set (items ?old)" by auto
      with m no show False by (auto simp: strictEqNum_iff)
    qed
    then have "findIndex (\<lambda>item. strictEqNum (itemId item) (parseInt p)) (items ?new) = None"
      by (simp add: findIndex_None_iff)
    with ok stored show ?thesis by (simp add: updateItemQuantity_outcome)
  qed
  have keep: "filter (\<lambda>x. \<not> isNumber (itemId x)) (items c2) =
              filter (\<lambda>x. \<not> isNumber (itemId x)) (items (loadCart st1 uid))"
    if run: "updateItemQuantity e' st1 uid p q = (Inr c2, st2)" for e' p q c2 st2
  proof -
    have lc: "loadCart st1 uid = ?new" by (simp add: st1 loadCart_saveCart)
    from run stored obtain i where
      i: "findIndex (\<lambda>item. strictEqNum (itemId item) (parseInt p)) (items ?new) = Some i"
      and c2: "c2 = setQuantity ?new i q"
      by (auto simp: updateItemQuantity_outcome split: if_splits option.splits)
    from i have "i < length (items ?new)" "isNumber (itemId (items ?new ! i))"
      by (auto simp: findIndex_Some_iff dest: strictEqNum_isNumber)
    then show ?thesis unfolding c2 lc by (rule setQuantity_keeps_others)
  qed
  show ?thesis using r stored present miss keep by blast
qed

theorem non_number_itemId_unreachable_witness:
  "addItem envUp noData ''5'' ((pizza 2)\<lparr>itemId := JStr ''1''\<rparr>) =
     (Inr \<lparr>items = [(pizza 2)\<lparr>itemId := JStr ''1''\<rparr>], total = 20\<rparr>,
      saveCart noData ''5'' \<lparr>items = [(pizza 2)\<lparr>itemId := JStr ''1''\<rparr>], total = 20\<rparr>) \<and>
   updateItemQuantity envUp
     (saveCart noData ''5'' \<lparr>items = [(pizza 2)\<lparr>itemId := JStr ''1''\<rparr>], total = 20\<rparr>) ''5'' ''1'' 3 =
     (Inl NotFound, saveCart noData ''5'' \<lparr>items = [(pizza 2)\<lparr>itemId := JStr ''1''\<rparr>], total = 20\<rparr>)"
proof -
  let ?b = "(pizza 2)\<lparr>itemId := JStr ''1''\<rparr>"
  let ?st1 = "saveCart noData ''5'' \<lparr>items = [?b], total = 20\<rparr>"
  have add: "addItem envUp noData ''5'' ?b = (Inr \<lparr>items = [?b], total = 20\<rparr>, ?st1)"
    by (simp add: addItem_def example_defs)
  have "\<not> isNumber (itemId ?b)" "redisGetOk envUp" "redisSetOk envUp"
    by (simp_all add: example_defs)
  from non_number_itemId_unreachable [OF this add]
  have "redisGetOk envUp \<and>
        \<not> (\<exists>x\<in>set (items (loadCart noData ''5'')). \<exists>n. parseInt ''1'' = Some n \<and> itemId x = JNum n) \<longrightarrow>
        updateItemQuantity envUp ?st1 ''5'' ''1'' 3 = (Inl NotFound, ?st1)"
    by blast
  then have "updateItemQuantity envUp ?st1 ''5'' ''1'' 3 = (Inl NotFound, ?st1)"
    by (simp add: example_defs)
  with add show ?thesis by simp
qed

text \<open>
  C10 as stated fails: in a cart that holds an item with the number 1 as identifier
  and an item with the string \<open>''1''\<close> as identifier, the update route with the path
  parameter \<open>1\<close> is not answered NotFound; it succeeds and sets the quantity of the
  item with the number.
\<close>

theorem numeric_twin_counterexample:
  "addItem envUp (saveCart noData ''5'' \<lparr>items = [pizza 2], total = 20\<rparr>) ''5''
       ((pizza 2)\<lparr>itemId := JStr ''1''\<rparr>) =
     (Inr \<lparr>items = [pizza 2, (pizza 2)\<lparr>itemId := JStr ''1''\<rparr>], total = 40\<rparr>,
      saveCart noData ''5'' \<lparr>items = [pizza 2, (pizza 2)\<lparr>itemId := JStr ''1''\<rparr>], total = 40\<rparr>) \<and>
   fst (updateItemQuantity envUp
          (saveCart noData ''5'' \<lparr>items = [pizza 2, (pizza 2)\<lparr>itemId := JStr ''1''\<rparr>], total = 40\<rparr>)
          ''5'' ''1'' 7) =
     Inr \<lparr>items = [pizza 7, (pizza 2)\<lparr>itemId := JStr ''1''\<rparr>], total = 90\<rparr> \<and>
   fst (updateItemQuantity envUp
          (saveCart noData ''5'' \<lparr>items = [pizza 2, (pizza 2)\<lparr>itemId := JStr ''1''\<rparr>], total = 40\<rparr>)
          ''5'' ''1'' 7) \<noteq> Inl NotFound"
proof -
  have p: "parseInt ''1'' = Some 1"
    by (simp add: parseInt_def isWhiteSpace_def isDigitIn_def digitValue_def digitsValue_def)
  show ?thesis
    by (simp add: addItem_def updateItemQuantity_def p example_defs fun_upd_twist)
qed

subsection \<open>Placing an order\<close>

lemma parseInt_5: "parseInt ''5'' = Some 5"
  by (simp add: parseInt_def isWhiteSpace_def isDigitIn_def digitValue_def digitsValue_def)

lemma ObjectId_example: "ObjectId ''507f1f77bcf86cd799439011'' = Some ''507f1f77bcf86cd799439011''"
  by (simp add: ObjectId_def isHexDigit_def isDigitIn_def digitValue_def toLower_def)

lemma checkout_example:
  "placeOrder envUp pizzaCart (JNum 5) (JStr ''123 Main St'') JUndefined JUndefined =
     (Inr (''507f1f77bcf86cd799439011'', pizzaOrder), ordered)"
  by (simp add: placeOrder_outcome snapshot_def showNat.simps parseInt_5 js_or_def pizzaCart_def
      pizzaOrder_def ordered_def example_defs)

text \<open>
  C8. The place-order route answers InvalidInput (400) when the body's \<^verbatim>\<open>userId\<close>
  or \<^verbatim>\<open>deliveryAddress\<close> is falsy, which a missing field and the empty string are.
  With both given and a cache read that returns, it answers EmptyCart (400) when the
  user has no cart or the cart has no item. Whenever it answers InvalidInput or
  EmptyCart, both stores are as before: no order is created and no cart is changed.
\<close>

theorem placeOrder_rejects:
  "(\<not> truthy uid \<or> \<not> truthy addr \<longrightarrow>
      placeOrder e st uid addr nts pay = (Inl InvalidInput, st)) \<and>
   (truthy uid \<and> truthy addr \<and> redisGetOk e \<and>
    (redis st (getCartKey (js_toString uid)) = None \<or>
     (\<exists>en. redis st (getCartKey (js_toString uid)) = Some en \<and> items (payload en) = [])) \<longrightarrow>
      placeOrder e st uid addr nts pay = (Inl EmptyCart, st)) \<and>
   (fst (placeOrder e st uid addr nts pay) \<in> {Inl InvalidInput, Inl EmptyCart} \<longrightarrow>
      snd (placeOrder e st uid addr nts pay) = st) \<and>
   \<not> truthy JUndefined \<and> \<not> truthy (JStr '''') \<and>
   httpStatus InvalidInput = 400 \<and> httpStatus EmptyCart = 400"
  by (auto simp: placeOrder_outcome split: option.splits)

theorem placeOrder_rejects_witness:
  "placeOrder envUp pizzaCart (JNum 5) JUndefined JUndefined JUndefined = (Inl InvalidInput, pizzaCart) \<and>
   placeOrder envUp pizzaCart (JStr '''') (JStr ''123 Main St'') JUndefined JUndefined =
     (Inl InvalidInput, pizzaCart) \<and>
   placeOrder envUp noData (JNum 5) (JStr ''123 Main St'') JUndefined JUndefined = (Inl EmptyCart, noData)"
  using placeOrder_rejects [where uid = "JNum 5" and addr = JUndefined and e = envUp and st = pizzaCart
      and nts = JUndefined and pay = JUndefined]
    placeOrder_rejects [where uid = "JStr ''''" and addr = "JStr ''123 Main St''" and e = envUp
      and st = pizzaCart and nts = JUndefined and pay = JUndefined]
    placeOrder_rejects [where uid = "JNum 5" and addr = "JStr ''123 Main St''" and e = envUp
      and st = noData and nts = JUndefined and pay = JUndefined]
  by (simp add: showNat.simps envUp_def noData_def)

text \<open>
  C2. In the place-order route: when the insert of the order throws, both stores are as
  before and the answer is not a success; when the cache after the request differs
  from the cache before, the difference is the deleted cart key of the user and the
  order is in the collection under a new identifier; and after a success the cart
  route, on a cache read that returns, answers with the empty cart for that user.
\<close>

theorem placeOrder_deletes_cart_after_insert:
  assumes "placeOrder e st uid addr nts pay = (r, st')"
  shows "(\<not> mongoOk e \<or> newId e \<in> dom (orders st) \<longrightarrow> st' = st \<and> (\<forall>x. r \<noteq> Inr x)) \<and>
         (redis st' \<noteq> redis st \<longrightarrow>
            redis st' = (redis st)(getCartKey (js_toString uid) := None) \<and>
            orders st (newId e) = None \<and>
            (\<exists>ord. orders st' = (orders st)(newId e \<mapsto> ord))) \<and>
         (\<forall>i ord. r = Inr (i, ord) \<longrightarrow>
            orders st' i = Some ord \<and>
            (\<forall>e'. redisGetOk e' \<longrightarrow> getCart e' st' (js_toString uid) = (Inr emptyCart, st')))"
  using assms
  by (auto simp: placeOrder_outcome getCart_def split: option.splits if_splits)

theorem placeOrder_deletes_cart_after_insert_witness:
  "placeOrder envUp pizzaCart (JNum 5) (JStr ''123 Main St'') JUndefined JUndefined =
     (Inr (''507f1f77bcf86cd799439011'', pizzaOrder), ordered) \<and>
   orders ordered ''507f1f77bcf86cd799439011'' = Some pizzaOrder \<and>
   getCart envUp ordered ''5'' = (Inr \<lparr>items = [], total = 0\<rparr>, ordered) \<and>
   placeOrder (envUp\<lparr>mongoOk := False\<rparr>) pizzaCart (JNum 5) (JStr ''123 Main St'') JUndefined JUndefined =
     (Inl StoreFailure, pizzaCart)"
proof -
  have ok: "redisGetOk envUp" by (simp add: envUp_def)
  from placeOrder_deletes_cart_after_insert [OF checkout_example]
  have "orders ordered ''507f1f77bcf86cd799439011'' = Some pizzaOrder"
    and "redisGetOk envUp \<longrightarrow> getCart envUp ordered (js_toString (JNum 5)) = (Inr emptyCart, ordered)"
    by blast+
  moreover have "placeOrder (envUp\<lparr>mongoOk := False\<rparr>) pizzaCart (JNum 5) (JStr ''123 Main St'')
      JUndefined JUndefined = (Inl StoreFailure, pizzaCart)"
    by (simp add: placeOrder_outcome showNat.simps pizzaCart_def example_defs)
  ultimately show ?thesis
    using ok checkout_example by (simp add: showNat.simps emptyCart_def)
qed

text \<open>
  C4. With a truthy \<^verbatim>\<open>userId\<close> and \<^verbatim>\<open>deliveryAddress\<close>, store calls that return,
  a generated identifier that is new, and a cart with at least one item, the place-order
  route succeeds, and the order route, given a string that denotes the returned
  identifier, answers with the same order: its items and total amount are the cart's
  items and total, its status is \<open>pending\<close>, its notes are the empty string when the
  body has none, and its payment method is \<open>cash\<close> when the body has none.
\<close>

theorem placeOrder_getOrder_roundtrip:
  assumes "truthy uid" and "truthy addr"
    and "redisGetOk e" and "mongoOk e" and "redisDelOk e" and "orders st (newId e) = None"
    and "redis st (getCartKey (js_toString uid)) = Some en" and "items (payload en) \<noteq> []"
    and "mongoOk e'" and "ObjectId s = Some (newId e)"
  shows "\<exists>ord st'. placeOrder e st uid addr nts pay = (Inr (newId e, ord), st') \<and>
           getOrder e' st' s = (Inr ord, st') \<and>
           orderItems ord = items (payload en) \<and>
           totalAmount ord = total (payload en) \<and>
           status ord = ''pending'' \<and>
           (nts = JUndefined \<longrightarrow> notes' ord = JStr '''') \<and>
           (pay = JUndefined \<longrightarrow> paymentMethod ord = JStr ''cash'') \<and>
           notes' ord = (if truthy nts then nts else JStr '''') \<and>
           paymentMethod ord = (if truthy pay then pay else JStr ''cash'')"
  using assms
  by (auto simp: placeOrder_outcome getOrder_def snapshot_def js_or_def domIff)

theorem placeOrder_getOrder_roundtrip_witness:
  "placeOrder envUp pizzaCart (JNum 5) (JStr ''123 Main St'') JUndefined JUndefined =
     (Inr (''507f1f77bcf86cd799439011'', pizzaOrder), ordered) \<and>
   getOrder envUp ordered ''507f1f77bcf86cd799439011'' = (Inr pizzaOrder, ordered) \<and>
   orderItems pizzaOrder = [pizza 3] \<and> totalAmount pizzaOrder = 30 \<and>
   status pizzaOrder = ''pending'' \<and> notes' pizzaOrder = JStr '''' \<and>
   paymentMethod pizzaOrder = JStr ''cash''"
proof -
  let ?en = "\<lparr>ttl = 86400, payload = \<lparr>items = [pizza 3], total = 30\<rparr>\<rparr>"
  have h: "truthy (JNum 5)" "truthy (JStr ''123 Main St'')"
    "redisGetOk envUp" "mongoOk envUp" "redisDelOk envUp"
    "orders pizzaCart (newId envUp) = None"
    "redis pizzaCart (getCartKey (js_toString (JNum 5))) = Some ?en"
    "items (payload ?en) \<noteq> []"
    "mongoOk envUp" "ObjectId ''507f1f77bcf86cd799439011'' = Some (newId envUp)"
    using ObjectId_example by (simp_all add: showNat.simps pizzaCart_def example_defs)
  from placeOrder_getOrder_roundtrip [OF h, of JUndefined JUndefined]
  obtain ord st' where
    "placeOrder envUp pizzaCart (JNum 5) (JStr ''123 Main St'') JUndefined JUndefined =
       (Inr (newId envUp, ord), st')"
    and "getOrder envUp st' ''507f1f77bcf86cd799439011'' = (Inr ord, st')"
    by blast
  with checkout_example show ?thesis
    by (simp add: pizzaOrder_def)
qed

subsection \<open>Reading an order\<close>

text \<open>
  C5, as amended. When the collection answers, the order route answers NotFound (404)
  exactly when the path parameter is a well-formed identifier and the collection holds
  no order under it. When the path parameter is not a well-formed identifier, the
  constructor of the identifier throws and the route answers StoreFailure (500).
\<close>

theorem getOrder_NotFound_iff:
  "(mongoOk e \<longrightarrow>
      (fst (getOrder e st s) = Inl NotFound \<longleftrightarrow> (\<exists>i. ObjectId s = Some i \<and> orders st i = None))) \<and>
   (ObjectId s = None \<longrightarrow> getOrder e st s = (Inl StoreFailure, st)) \<and>
   httpStatus NotFound = 404 \<and> httpStatus StoreFailure = 500"
  by (auto simp: getOrder_def split: option.splits)

theorem getOrder_NotFound_iff_witness:
  "fst (getOrder envUp noData ''507f1f77bcf86cd799439011'') = Inl NotFound \<and>
   fst (getOrder envUp ordered ''507f1f77bcf86cd799439011'') = Inr pizzaOrder \<and>
   getOrder envUp ordered ''not-an-id'' = (Inl StoreFailure, ordered)"
  using getOrder_NotFound_iff [of envUp noData "''507f1f77bcf86cd799439011''"]
    getOrder_NotFound_iff [of envUp ordered "''not-an-id''"] ObjectId_example
  by (simp add: getOrder_def ObjectId_def envUp_def noData_def ordered_def)

text \<open>
  C5 as stated fails: \<open>abc\<close> is not a well-formed identifier, and the order route
  answers it with StoreFailure (500), not with NotFound.
\<close>

theorem getOrder_malformed_counterexample:
  "ObjectId ''abc'' = None \<and> orders noData = Map.empty \<and>
   fst (getOrder envUp noData ''abc'') = Inl StoreFailure \<and>
   fst (getOrder envUp noData ''abc'') \<noteq> Inl NotFound"
  by (simp add: getOrder_def ObjectId_def noData_def)

subsection \<open>Updating the status of an order\<close>

text \<open>
  C9, as amended. The status route answers InvalidInput (400) and leaves the stores as
  they are when the body's status is not one of the six strings. With a valid status:
  when the path parameter is not a well-formed identifier, the constructor of the
  identifier throws and the route answers StoreFailure (500); when the collection
  answers and the path parameter denotes the identifier \<open>i\<close>, the route answers
  NotFound (404) if the collection holds no order under \<open>i\<close>, and otherwise it
  succeeds, whatever the status of the order was: the order's status becomes the given
  one and its \<^verbatim>\<open>updatedAt\<close> the time of the request.
\<close>

theorem updateOrderStatus_behaviour:
  "(\<not> includesStatus v \<longrightarrow> updateOrderStatus e st s v = (Inl InvalidInput, st)) \<and>
   (includesStatus v \<longleftrightarrow>
      v \<in> JStr ` {''pending'', ''confirmed'', ''preparing'', ''out_for_delivery'', ''delivered'', ''cancelled''}) \<and>
   (includesStatus v \<and> ObjectId s = None \<longrightarrow>
      updateOrderStatus e st s v = (Inl StoreFailure, st)) \<and>
   (includesStatus v \<and> mongoOk e \<and> ObjectId s = Some i \<and> orders st i = None \<longrightarrow>
      updateOrderStatus e st s v = (Inl NotFound, st)) \<and>
   (\<forall>ord name. v = JStr name \<and> includesStatus v \<and> mongoOk e \<and> ObjectId s = Some i \<and> orders st i = Some ord \<longrightarrow>
      updateOrderStatus e st s v =
        (Inr v, st\<lparr>orders := (orders st)(i \<mapsto> ord\<lparr>status := name, updatedAt := now e\<rparr>)\<rparr>)) \<and>
   httpStatus InvalidInput = 400 \<and> httpStatus NotFound = 404 \<and> httpStatus StoreFailure = 500"
  by (cases v) (auto simp: updateOrderStatus_def validStatuses_def)

theorem updateOrderStatus_behaviour_witness:
  "updateOrderStatus envUp ordered ''507f1f77bcf86cd799439011'' (JStr ''bogus'') =
     (Inl InvalidInput, ordered) \<and>
   updateOrderStatus envUp ordered ''not-an-id'' (JStr ''confirmed'') =
     (Inl StoreFailure, ordered) \<and>
   updateOrderStatus envUp noData ''507f1f77bcf86cd799439011'' (JStr ''confirmed'') =
     (Inl NotFound, noData) \<and>
   updateOrderStatus (envUp\<lparr>now := 1700000600\<rparr>) ordered ''507f1f77bcf86cd799439011'' (JStr ''delivered'') =
     (Inr (JStr ''delivered''),
      ordered\<lparr>orders := (orders ordered)(''507f1f77bcf86cd799439011'' \<mapsto>
         pizzaOrder\<lparr>status := ''delivered'', updatedAt := 1700000600\<rparr>)\<rparr>)"
  using updateOrderStatus_behaviour [where v = "JStr ''bogus''" and e = envUp and st = ordered
      and s = "''507f1f77bcf86cd799439011''"]
    updateOrderStatus_behaviour [where v = "JStr ''confirmed''" and e = envUp and st = ordered
      and s = "''not-an-id''"]
    updateOrderStatus_behaviour [where v = "JStr ''confirmed''" and e = envUp and st = noData
      and s = "''507f1f77bcf86cd799439011''" and i = "''507f1f77bcf86cd799439011''"]
    updateOrderStatus_behaviour [where v = "JStr ''delivered''" and e = "envUp\<lparr>now := 1700000600\<rparr>"
      and st = ordered and s = "''507f1f77bcf86cd799439011''" and i = "''507f1f77bcf86cd799439011''"]
    ObjectId_example
  by (simp add: validStatuses_def envUp_def noData_def ordered_def ObjectId_def)

text \<open>
  C9 as stated fails: with the valid status \<open>confirmed\<close> and the path parameter
  \<open>abc\<close>, which is not a well-formed identifier, no matching order exists, and the
  status route answers StoreFailure (500), not NotFound.
\<close>

theorem updateOrderStatus_malformed_counterexample:
  "includesStatus (JStr ''confirmed'') \<and> ObjectId ''abc'' = None \<and> orders noData = Map.empty \<and>
   updateOrderStatus envUp noData ''abc'' (JStr ''confirmed'') = (Inl StoreFailure, noData) \<and>
   fst (updateOrderStatus envUp noData ''abc'' (JStr ''confirmed'')) \<noteq> Inl NotFound"
  by (simp add: updateOrderStatus_def ObjectId_def noData_def validStatuses_def)

end
